theory Spec2Isabelle
  imports Complex_Main "HOL-Library.Multiset"
begin

section \<open>Text, as Python's \<open>str\<close> sees it\<close>

text \<open>
  Page text is a \<^typ>\<open>string\<close>; a \<^typ>\<open>char\<close> stands for the code point of the same
  number, so the model covers text over the code points 0 to 255. The character classes
  below are Python's on that range: \<open>str.isspace\<close> and the pattern class \<open>\s\<close> agree,
  \<open>str.isdigit\<close> also accepts the superscripts 0xB2, 0xB3 and 0xB9, which neither the
  pattern class \<open>\d\<close> nor \<open>int()\<close> accepts.
\<close>

definition code :: "char \<Rightarrow> nat" where
  "code c = of_char c"

definition isspace :: "char \<Rightarrow> bool" where
  "isspace c = (let n = code c in (9 \<le> n \<and> n \<le> 13) \<or> (28 \<le> n \<and> n \<le> 32) \<or> n = 133 \<or> n = 160)"

definition re_digit :: "char \<Rightarrow> bool" where
  "re_digit c = (let n = code c in 48 \<le> n \<and> n \<le> 57)"

definition isdigit :: "char \<Rightarrow> bool" where
  "isdigit c = (let n = code c in (48 \<le> n \<and> n \<le> 57) \<or> n = 178 \<or> n = 179 \<or> n = 185)"

definition int_space :: "char \<Rightarrow> bool" where
  \<comment> \<open>the blanks \<open>int()\<close> tolerates around a literal\<close>
  "int_space c = (let n = code c in (9 \<le> n \<and> n \<le> 13) \<or> n = 32 \<or> n = 133 \<or> n = 160)"

definition strip :: "string \<Rightarrow> string" where
  \<comment> \<open>\<open>str.strip()\<close>\<close>
  "strip s = rev (dropWhile isspace (rev (dropWhile isspace s)))"

definition startswith :: "string \<Rightarrow> string \<Rightarrow> bool" where
  "startswith s p = (take (length p) s = p)"

fun contains :: "string \<Rightarrow> string \<Rightarrow> bool" where
  \<comment> \<open>\<open>p in s\<close>\<close>
  "contains [] p = (p = [])"
| "contains (c # cs) p = (startswith (c # cs) p \<or> contains cs p)"

definition remove_commas :: "string \<Rightarrow> string" where
  \<comment> \<open>\<open>s.replace(",", "")\<close>\<close>
  "remove_commas s = filter (\<lambda>c. c \<noteq> CHR '','') s"

datatype py_error =
    AnimeScraperError string
  | AttributeError
  | TypeError
  | KeyError string
  | ValueError
  | OSError
  | FileNotFoundError
  | PlotError

definition decimal :: "string \<Rightarrow> int" where
  \<comment> \<open>the value of a run of the digits 0 to 9\<close>
  "decimal ds = foldl (\<lambda>a c. 10 * a + (int (code c) - 48)) 0 ds"

fun int_digits :: "string \<Rightarrow> bool" where
  \<comment> \<open>digits with single underscores between them, as an \<open>int()\<close> literal allows\<close>
  "int_digits [] = False"
| "int_digits [c] = re_digit c"
| "int_digits (c # d # cs) =
     (re_digit c \<and> (if d = CHR ''_'' then int_digits cs else int_digits (d # cs)))"

definition py_int :: "string \<Rightarrow> py_error + int" where
  \<comment> \<open>\<open>int(s)\<close> in base 10; the interpreter's cap on the length of a literal is left out\<close>
  "py_int s =
     (let t = rev (dropWhile int_space (rev (dropWhile int_space s)));
          (neg, body) = (case t of
                           [] \<Rightarrow> (False, [])
                         | c # cs \<Rightarrow> if c = CHR ''-'' then (True, cs)
                                     else if c = CHR ''+'' then (False, cs)
                                     else (False, t))
      in if int_digits body
         then Inr ((if neg then - 1 else 1) * decimal (filter re_digit body))
         else Inl ValueError)"

subsection \<open>The two patterns of the collector\<close>

definition count_char :: "char \<Rightarrow> bool" where
  \<comment> \<open>the class \<open>[\d,]\<close>\<close>
  "count_char c = (re_digit c \<or> c = CHR '','')"

definition match_status_at :: "string \<Rightarrow> string \<Rightarrow> string option" where
  \<comment> \<open>\<open>{status}:\s*([\d,]+)\<close> anchored at the start of \<open>s\<close>; the result is group 1\<close>
  "match_status_at status s =
     (if startswith s (status @ '':'')
      then (let g = takeWhile count_char
                      (dropWhile isspace (drop (length status + 1) s))
            in if g = [] then None else Some g)
      else None)"

fun search_status :: "string \<Rightarrow> string \<Rightarrow> string option" where
  \<comment> \<open>\<open>re.search\<close>: the leftmost position where the pattern matches\<close>
  "search_status status [] = None"
| "search_status status (c # cs) =
     (case match_status_at status (c # cs) of
        Some g \<Rightarrow> Some g
      | None \<Rightarrow> search_status status cs)"

definition match_users_at :: "string \<Rightarrow> string option" where
  \<comment> \<open>\<open>by ([\d,]+) users\<close> anchored at the start of \<open>s\<close>\<close>
  "match_users_at s =
     (if startswith s ''by ''
      then (let g = takeWhile count_char (drop 3 s)
            in if g \<noteq> [] \<and> startswith (drop (3 + length g) s) '' users''
               then Some g else None)
      else None)"

fun search_users :: "string \<Rightarrow> string option" where
  "search_users [] = None"
| "search_users (c # cs) =
     (case match_users_at (c # cs) of
        Some g \<Rightarrow> Some g
      | None \<Rightarrow> search_users cs)"

section \<open>The collector (scrape.py)\<close>

subsection \<open>What the markup library answers\<close>

text \<open>
  The HTTP client and the markup parser are libraries outside the repository. A fetched
  document is modelled by the answers it gives to the queries the collector makes; the
  network is a function of the request's number in the session and its URL, so the same
  URL may answer differently on a later request.
\<close>

datatype node = NavigableString string | Tag

record a_tag =
  a_text :: string
  href :: "string option"

record score_cell =
  span_text :: "string option"  \<comment> \<open>\<open>score_td.find("span")\<close> and its \<open>.text\<close>\<close>
  cell_text :: string           \<comment> \<open>\<open>score_td.get_text(strip=True)\<close>\<close>

record entry =
  rank_td :: "string option"               \<comment> \<open>\<open>entry.find("td", class_="rank")\<close> and its \<open>.text\<close>\<close>
  anime_ranking_h3 :: "a_tag option option"  \<comment> \<open>the \<open>h3\<close>, then its first \<open>a\<close>\<close>
  score_td :: "score_cell option"          \<comment> \<open>\<open>entry.find("td", class_="score")\<close>\<close>

record soup =
  spans :: "(string \<times> node option) list"
    \<comment> \<open>the \<open>span\<close> elements in document order: \<open>.string\<close> and \<open>.next_sibling\<close>\<close>
  genre_spans :: "string list"   \<comment> \<open>\<open>g.text\<close> for \<open>span[itemprop='genre']\<close>\<close>
  page_text :: string            \<comment> \<open>\<open>soup.get_text()\<close>\<close>
  text_nodes :: "string list"    \<comment> \<open>the strings \<open>soup.find(string=...)\<close> walks, in order\<close>
  ranking_rows :: "entry list"   \<comment> \<open>\<open>soup.find_all("tr", class_="ranking-list")\<close>\<close>

datatype response = RequestException | Page soup

type_synonym web = "nat \<Rightarrow> string \<Rightarrow> response"

datatype pyfloat = Finite rat | PosInf | NegInf | NaN

datatype log_record =
    ErrorFetching string
  | ErrorParsingDetails string py_error
  | ErrorProcessingEntry string py_error
  | ScriptFailed py_error
  | Info string

type_synonym path = "string list"

record details =
  Type :: string
  Episodes :: string
  Duration :: string
  Source :: string
  Aired :: string
  Season :: string
  Genres :: string
  Watching :: int
  Completed :: int
  On_Hold :: int
  Dropped :: int
  Plan_to_Watch :: int
  Season_Number :: int

record raw_record = details +
  Rank :: int
  Title :: string
  Score :: pyfloat
  Rating_Users :: int

record world =
  requests :: nat                           \<comment> \<open>requests the session has made\<close>
  log :: "log_record list"
  dirs :: "path set"
  files :: "path \<rightharpoonup> raw_record list"   \<comment> \<open>a CSV file holds the rows written to it\<close>

definition and_then :: "'e + 'a \<Rightarrow> ('a \<Rightarrow> 'e + 'b) \<Rightarrow> 'e + 'b" where
  "and_then r f = (case r of Inl e \<Rightarrow> Inl e | Inr x \<Rightarrow> f x)"

subsection \<open>fetch_page\<close>

definition fetch_page :: "web \<Rightarrow> string \<Rightarrow> world \<Rightarrow> (py_error + soup) \<times> world" where
  "fetch_page net url w =
     (case net (requests w) url of
        RequestException \<Rightarrow>
          (Inl (AnimeScraperError ''Failed to fetch page''),
           w\<lparr>requests := Suc (requests w), log := log w @ [ErrorFetching url]\<rparr>)
      | Page s \<Rightarrow> (Inr s, w\<lparr>requests := Suc (requests w)\<rparr>))"

subsection \<open>parse_anime_details\<close>

definition label_field :: "soup \<Rightarrow> string \<Rightarrow> py_error + string" where
  \<comment> \<open>lines 93 to 97; a sibling that is a tag has no \<open>strip\<close> method to call\<close>
  "label_field s label =
     (case map_of (spans s) label of
        None \<Rightarrow> Inr ''Unknown''
      | Some None \<Rightarrow> Inr ''Unknown''
      | Some (Some (NavigableString t)) \<Rightarrow> if t = [] then Inr ''Unknown'' else Inr (strip t)
      | Some (Some Tag) \<Rightarrow> Inl TypeError)"

definition status_count :: "soup \<Rightarrow> string \<Rightarrow> py_error + int" where
  \<comment> \<open>lines 121 to 123\<close>
  "status_count s status =
     (case search_status status (page_text s) of
        None \<Rightarrow> Inr 0
      | Some g \<Rightarrow> py_int (remove_commas g))"

definition season_number :: "soup \<Rightarrow> string \<Rightarrow> py_error + int" where
  \<comment> \<open>lines 129 to 135\<close>
  "season_number s ty =
     (if startswith ty ''TV''
      then (case find (\<lambda>t. t \<noteq> [] \<and> contains t ''Season'') (text_nodes s) of
              None \<Rightarrow> Inr 1
            | Some season_match \<Rightarrow>
                (let digits = filter isdigit season_match
                 in if digits \<noteq> [] \<and> list_all isdigit digits then py_int digits else Inr 1))
      else Inr 1)"

definition join_comma :: "string list \<Rightarrow> string" where
  \<comment> \<open>\<open>", ".join(xs)\<close>\<close>
  "join_comma xs = (case xs of [] \<Rightarrow> [] | x # r \<Rightarrow> x @ concat (map (\<lambda>y. '', '' @ y) r))"

definition extract_details :: "soup \<Rightarrow> py_error + details" where
  \<comment> \<open>the body of the \<open>try\<close> after the fetch, lines 79 to 138\<close>
  "extract_details s =
     and_then (label_field s ''Type:'') (\<lambda>ty.
     and_then (label_field s ''Episodes:'') (\<lambda>ep.
     and_then (label_field s ''Duration:'') (\<lambda>du.
     and_then (label_field s ''Source:'') (\<lambda>so.
     and_then (label_field s ''Aired:'') (\<lambda>ai.
     and_then (label_field s ''Season:'') (\<lambda>se.
     and_then (status_count s ''Watching'') (\<lambda>wa.
     and_then (status_count s ''Completed'') (\<lambda>co.
     and_then (status_count s ''On-Hold'') (\<lambda>oh.
     and_then (status_count s ''Dropped'') (\<lambda>dr.
     and_then (status_count s ''Plan to Watch'') (\<lambda>pl.
     and_then (season_number s ty) (\<lambda>sn.
       Inr \<lparr>Type = ty, Episodes = ep, Duration = du, Source = so, Aired = ai, Season = se,
            Genres = (if genre_spans s = [] then ''Unknown'' else join_comma (genre_spans s)),
            Watching = wa, Completed = co, On_Hold = oh, Dropped = dr, Plan_to_Watch = pl,
            Season_Number = sn\<rparr>))))))))))))"

definition default_details :: details where
  \<comment> \<open>lines 143 to 157\<close>
  "default_details =
     \<lparr>Type = ''Unknown'', Episodes = ''Unknown'', Duration = ''Unknown'', Source = ''Unknown'',
      Aired = ''Unknown'', Season = ''Unknown'', Genres = ''Unknown'',
      Watching = 0, Completed = 0, On_Hold = 0, Dropped = 0, Plan_to_Watch = 0,
      Season_Number = 1\<rparr>"

definition parse_anime_details :: "web \<Rightarrow> string \<Rightarrow> world \<Rightarrow> details \<times> world" where
  "parse_anime_details net url w =
     (case fetch_page net url w of
        (Inl e, w') \<Rightarrow> (default_details, w'\<lparr>log := log w' @ [ErrorParsingDetails url e]\<rparr>)
      | (Inr s, w') \<Rightarrow>
          (case extract_details s of
             Inl e \<Rightarrow> (default_details, w'\<lparr>log := log w' @ [ErrorParsingDetails url e]\<rparr>)
           | Inr info \<Rightarrow> (info, w')))"

subsection \<open>parse_top_anime\<close>

record summary =
  s_rank :: int
  s_title :: string
  s_link :: string
  s_score :: pyfloat
  s_rating_users :: int

definition extract_entry ::
  "(string \<Rightarrow> py_error + pyfloat) \<Rightarrow> entry \<Rightarrow> (py_error \<times> string option) + summary" where
  \<comment> \<open>lines 171 to 184; \<open>float()\<close> is the parameter \<open>flt\<close>. An error carries the title
      when the row had assigned it before raising.\<close>
  "extract_entry flt e =
     (case rank_td e of
        None \<Rightarrow> Inl (AttributeError, None)
      | Some rank_text \<Rightarrow>
     (case py_int (strip rank_text) of
        Inl err \<Rightarrow> Inl (err, None)
      | Inr rank \<Rightarrow>
     (case anime_ranking_h3 e of
        None \<Rightarrow> Inl (AttributeError, None)
      | Some None \<Rightarrow> Inl (AttributeError, None)
      | Some (Some title_tag) \<Rightarrow>
     (let title = strip (a_text title_tag) in
     (case href title_tag of
        None \<Rightarrow> Inl (KeyError ''href'', Some title)
      | Some link \<Rightarrow>
     (case (case score_td e of
              None \<Rightarrow> Inr (Finite 0)
            | Some td \<Rightarrow> (case span_text td of
                           None \<Rightarrow> Inl AttributeError
                         | Some t \<Rightarrow> flt (strip t))) of
        Inl err \<Rightarrow> Inl (err, Some title)
      | Inr score \<Rightarrow>
     (case score_td e of
        None \<Rightarrow> Inl (AttributeError, Some title)
      | Some td \<Rightarrow>
     (case (case search_users (cell_text td) of
              None \<Rightarrow> Inr 0
            | Some g \<Rightarrow> py_int (remove_commas g)) of
        Inl err \<Rightarrow> Inl (err, Some title)
      | Inr rating_users \<Rightarrow>
          Inr \<lparr>s_rank = rank, s_title = title, s_link = link, s_score = score,
               s_rating_users = rating_users\<rparr>))))))))"

definition merge_record :: "summary \<Rightarrow> details \<Rightarrow> raw_record" where
  \<comment> \<open>lines 189 to 195\<close>
  "merge_record sm d =
     details.extend d
       (raw_record.fields (s_rank sm) (s_title sm) (s_score sm) (s_rating_users sm))"

fun parse_entries ::
  "(string \<Rightarrow> py_error + pyfloat) \<Rightarrow> web \<Rightarrow> entry list \<Rightarrow> raw_record list \<Rightarrow>
   string option \<Rightarrow> world \<Rightarrow> raw_record list \<times> world" where
  \<comment> \<open>the loop of lines 168 to 203; \<open>title\<close> is the local variable, which outlives
      an iteration\<close>
  "parse_entries flt net [] anime_list title w = (anime_list, w)"
| "parse_entries flt net (e # es) anime_list title w =
     (case extract_entry flt e of
        Inl (err, t) \<Rightarrow>
          (let title' = (case t of Some x \<Rightarrow> Some x | None \<Rightarrow> title)
           in parse_entries flt net es anime_list title'
                (w\<lparr>log := log w @
                   [ErrorProcessingEntry (case title' of Some x \<Rightarrow> x | None \<Rightarrow> ''unknown'')
                      err]\<rparr>))
      | Inr sm \<Rightarrow>
          (case parse_anime_details net (s_link sm) w of
             (d, w') \<Rightarrow>
               parse_entries flt net es (anime_list @ [merge_record sm d])
                 (Some (s_title sm)) w'))"

definition parse_top_anime ::
  "(string \<Rightarrow> py_error + pyfloat) \<Rightarrow> web \<Rightarrow> soup \<Rightarrow> world \<Rightarrow> raw_record list \<times> world" where
  "parse_top_anime flt net s w = parse_entries flt net (ranking_rows s) [] None w"

subsection \<open>save_data and main\<close>

definition ancestors :: "path \<Rightarrow> path list" where
  \<comment> \<open>the directory itself and every directory above it\<close>
  "ancestors p = map (\<lambda>n. take n p) [0..<Suc (length p)]"

definition mkdir_parents :: "path \<Rightarrow> world \<Rightarrow> py_error + world" where
  \<comment> \<open>\<open>mkdir(parents=True, exist_ok=True)\<close>\<close>
  "mkdir_parents p w =
     (if \<exists>q \<in> set (ancestors p). q \<in> dom (files w) then Inl OSError
      else Inr (w\<lparr>dirs := dirs w \<union> set (ancestors p)\<rparr>))"

definition to_csv :: "raw_record list \<Rightarrow> path \<Rightarrow> world \<Rightarrow> py_error + world" where
  "to_csv df p w =
     (if butlast p \<in> dirs w \<and> p \<notin> dirs w
      then Inr (w\<lparr>files := (files w)(p \<mapsto> df)\<rparr>)
      else Inl OSError)"

definition save_data :: "raw_record list \<Rightarrow> path \<Rightarrow> world \<Rightarrow> (py_error + raw_record list) \<times> world" where
  "save_data anime_list filepath w =
     (if anime_list = [] then (Inl (AnimeScraperError ''No data to save''), w)
      else (case mkdir_parents (butlast filepath) w of
              Inl e \<Rightarrow> (Inl e, w)
            | Inr w1 \<Rightarrow>
                (case to_csv anime_list filepath w1 of
                   Inl e \<Rightarrow> (Inl e, w1)
                 | Inr w2 \<Rightarrow> (Inr anime_list, w2\<lparr>log := log w2 @ [Info ''Data saved successfully'']\<rparr>))))"

definition BASE_URL :: string where
  "BASE_URL = ''https://myanimelist.net/topanime.php''"

fun fetch_listings ::
  "(string \<Rightarrow> py_error + pyfloat) \<Rightarrow> web \<Rightarrow> string list \<Rightarrow> raw_record list \<Rightarrow> world \<Rightarrow>
   (py_error + raw_record list) \<times> world" where
  \<comment> \<open>the loop of lines 237 to 242 over the offsets\<close>
  "fetch_listings flt net [] all_anime w = (Inr all_anime, w)"
| "fetch_listings flt net (offset # rest) all_anime w =
     (case fetch_page net (BASE_URL @ ''?limit='' @ offset)
             (w\<lparr>log := log w @ [Info (''Fetching Top Anime page with offset='' @ offset)]\<rparr>) of
        (Inl e, w') \<Rightarrow> (Inl e, w')
      | (Inr s, w') \<Rightarrow>
          (case parse_top_anime flt net s w' of
             (rows, w'') \<Rightarrow> fetch_listings flt net rest (all_anime @ rows) w''))"

definition main ::
  "(string \<Rightarrow> py_error + pyfloat) \<Rightarrow> web \<Rightarrow> path \<Rightarrow> world \<Rightarrow> (py_error + unit) \<times> world" where
  \<comment> \<open>\<open>script_dir\<close> is the directory of the script\<close>
  "main flt net script_dir w =
     (let output_file = butlast script_dir @ [''data'', ''top_anime_detailed.csv'']
      in case fetch_listings flt net [''0'', ''50'', ''100''] [] w of
           (Inl e, w') \<Rightarrow> (Inl e, w'\<lparr>log := log w' @ [ScriptFailed e]\<rparr>)
         | (Inr all_anime, w') \<Rightarrow>
             (case save_data all_anime output_file w' of
                (Inl e, w'') \<Rightarrow> (Inl e, w''\<lparr>log := log w'' @ [ScriptFailed e]\<rparr>)
              | (Inr df, w'') \<Rightarrow> (Inr (), w''\<lparr>log := log w'' @ [Info ''Data Summary'']\<rparr>)))"

section \<open>The normalizer (clean.py)\<close>

text \<open>
  A table is its columns in order, each a name and its cells. A cell is a number or a
  text; a missing value is the number \<open>NaN\<close>, as the table library stores it. Numbers are
  exact rationals with the three special values of the floating-point format: the rounding
  of a quotient to the nearest double, the sign of zero and the 64-bit range of an integer
  column are not modelled. The conversion of a text to a number belongs to the library and
  is the parameter \<open>num\<close> (\<open>NaN\<close> where the text is no number).
\<close>

datatype cell = Num pyfloat | Str string

type_synonym dataframe = "(string \<times> cell list) list"

definition getitem :: "dataframe \<Rightarrow> string \<Rightarrow> py_error + cell list" where
  \<comment> \<open>\<open>df[name]\<close>\<close>
  "getitem df name = (case map_of df name of None \<Rightarrow> Inl (KeyError name) | Some col \<Rightarrow> Inr col)"

fun setitem :: "dataframe \<Rightarrow> string \<Rightarrow> cell list \<Rightarrow> dataframe" where
  \<comment> \<open>\<open>df[name] = col\<close>: in place when the column exists, a new last column otherwise\<close>
  "setitem [] name col = [(name, col)]"
| "setitem ((k, v) # df) name col =
     (if k = name then (k, col) # df else (k, v) # setitem df name col)"

definition to_numeric :: "(string \<Rightarrow> pyfloat) \<Rightarrow> cell list \<Rightarrow> pyfloat list" where
  \<comment> \<open>\<open>pd.to_numeric(col, errors='coerce')\<close>\<close>
  "to_numeric num col = map (\<lambda>c. case c of Num x \<Rightarrow> x | Str s \<Rightarrow> num s) col"





definition fillna0 :: "pyfloat \<Rightarrow> pyfloat" where
  "fillna0 x = (if x = NaN then Finite 0 else x)"











definition status_column ::
  "(string \<Rightarrow> pyfloat) \<Rightarrow> dataframe \<Rightarrow> string \<Rightarrow> py_error + pyfloat list \<times> dataframe" where
  \<comment> \<open>one turn of the loop of lines 47 to 50\<close>
  "status_column num df col =
     and_then (getitem df col) (\<lambda>c.
       (let v = map fillna0 (to_numeric num c) in Inr (v, setitem df col (map Num v))))"








section \<open>The reporter (analyze_visualize.py)\<close>










section \<open>Auxiliary notions and example data\<close>

definition is_parsed :: "(string \<Rightarrow> py_error + pyfloat) \<Rightarrow> entry \<Rightarrow> bool" where
  "is_parsed flt e = (case extract_entry flt e of Inl x \<Rightarrow> False | Inr sm \<Rightarrow> True)"

fun parsed_rows :: "(string \<Rightarrow> py_error + pyfloat) \<Rightarrow> entry list \<Rightarrow> summary list" where
  "parsed_rows flt [] = []"
| "parsed_rows flt (e # es) =
     (case extract_entry flt e of
        Inl x \<Rightarrow> parsed_rows flt es
      | Inr sm \<Rightarrow> sm # parsed_rows flt es)"

definition details_at :: "web \<Rightarrow> nat \<Rightarrow> string \<Rightarrow> details" where
  "details_at net n url =
     (case net n url of
        RequestException \<Rightarrow> default_details
      | Page s \<Rightarrow> (case extract_details s of Inl e \<Rightarrow> default_details | Inr info \<Rightarrow> info))"

fun emitted :: "web \<Rightarrow> nat \<Rightarrow> summary list \<Rightarrow> raw_record list" where
  "emitted net n [] = []"
| "emitted net n (sm # sms) =
     merge_record sm (details_at net n (s_link sm)) # emitted net (Suc n) sms"

definition entry_errors :: "log_record list \<Rightarrow> log_record list" where
  "entry_errors lg = filter (\<lambda>r. case r of ErrorProcessingEntry t e \<Rightarrow> True | _ \<Rightarrow> False) lg"

definition flt0 :: "string \<Rightarrow> py_error + pyfloat" where
  "flt0 s = (if s = ''9.10'' then Inr (Finite (91 / 10))
             else if s = ''8.50'' then Inr (Finite (17 / 2))
             else Inl ValueError)"

definition row0 :: "string \<Rightarrow> string \<Rightarrow> string \<Rightarrow> entry" where
  "row0 r t l =
     \<lparr>rank_td = Some r,
      anime_ranking_h3 = Some (Some \<lparr>a_text = t, href = Some l\<rparr>),
      score_td = Some \<lparr>span_text = Some ''9.10'', cell_text = ''9.10''\<rparr>\<rparr>"

definition row_no_score :: entry where
  "row_no_score =
     \<lparr>rank_td = Some ''1'',
      anime_ranking_h3 = Some (Some \<lparr>a_text = ''Frieren'', href = Some ''/anime/1''\<rparr>),
      score_td = None\<rparr>"

definition listing0 :: "entry list \<Rightarrow> soup" where
  "listing0 rows = \<lparr>spans = [], genre_spans = [], page_text = [], text_nodes = [], ranking_rows = rows\<rparr>"

definition detail0 :: "string \<Rightarrow> string \<Rightarrow> soup" where
  "detail0 ty fragment =
     \<lparr>spans = [(''Type:'', Some (NavigableString ty))], genre_spans = [''Drama'', ''Fantasy''],
      page_text = ''Watching: 1,234 Completed: 56'', text_nodes = [''Type:'', ty, fragment],
      ranking_rows = []\<rparr>"

definition net0 :: web where
  "net0 n url = (if url = ''/anime/1'' then Page (detail0 '' TV '' ''Season 2 Part 3'')
                 else if url = ''/anime/3'' then Page (detail0 ''TV'' ''Season 0'')
                 else RequestException)"

definition w0 :: world where
  "w0 = \<lparr>requests = 0, log = [], dirs = {}, files = Map.empty\<rparr>"

definition page0 :: soup where
  "page0 = listing0 [row0 ''1'' ''A'' ''/anime/1'', row0 ''2'' ''B'' ''/anime/2'', row0 ''3'' ''C'' ''/anime/3'']"

fun listed_rows ::
  "(string \<Rightarrow> py_error + pyfloat) \<Rightarrow> web \<Rightarrow> string list \<Rightarrow> nat \<Rightarrow> summary list" where
  "listed_rows flt net [] n = []"
| "listed_rows flt net (offset # rest) n =
     (case net n (BASE_URL @ ''?limit='' @ offset) of
        RequestException \<Rightarrow> []
      | Page s \<Rightarrow>
          parsed_rows flt (ranking_rows s) @
          listed_rows flt net rest (Suc n + length (parsed_rows flt (ranking_rows s))))"

definition leading_digit_run :: "string \<Rightarrow> string" where
  "leading_digit_run t = takeWhile isdigit (dropWhile (\<lambda>c. \<not> isdigit c) t)"

definition page_dup :: soup where
  "page_dup = listing0 [row0 ''1'' ''A'' ''/anime/1'', row0 ''1'' ''B'' ''/anime/2'']"

definition page_skip :: soup where
  \<comment> \<open>the first row has rank 1 and a title without a link, the second row is whole\<close>
  "page_skip =
     listing0 [\<lparr>rank_td = Some ''1'',
                 anime_ranking_h3 = Some (Some \<lparr>a_text = ''A'', href = None\<rparr>),
                 score_td = Some \<lparr>span_text = Some ''9.10'', cell_text = ''9.10''\<rparr>\<rparr>,
               row0 ''2'' ''B'' ''/anime/2'']"

definition empty_net :: web where
  "empty_net n url = Page (listing0 [])"

definition detail_bad :: soup where
  "detail_bad =
     \<lparr>spans = [(''Type:'', Some Tag)], genre_spans = [], page_text = [], text_nodes = [],
      ranking_rows = []\<rparr>"

definition net1 :: web where
  "net1 n url =
     (if url = BASE_URL @ ''?limit=0'' then Page page0
      else if url = BASE_URL @ ''?limit=50'' then Page page_dup
      else if url = BASE_URL @ ''?limit=100'' then Page (listing0 [])
      else if url = ''/anime/9'' then Page detail_bad
      else net0 n url)"












section \<open>Properties of the collector\<close>

lemma parse_anime_details_fst:
  "fst (parse_anime_details net url w) = details_at net (requests w) url"
  by (simp add: parse_anime_details_def fetch_page_def details_at_def
           split: response.splits sum.splits)

lemma parse_anime_details_requests:
  "requests (snd (parse_anime_details net url w)) = Suc (requests w)"
  by (simp add: parse_anime_details_def fetch_page_def
           split: response.splits sum.splits)

lemma parse_entries_fst:
  "fst (parse_entries flt net es acc title w) =
     acc @ emitted net (requests w) (parsed_rows flt es)"
proof (induction es arbitrary: acc title w)
  case Nil
  show ?case by simp
next
  case (Cons e es)
  show ?case
  proof (cases "extract_entry flt e")
    case (Inl x)
    obtain err t where x: "x = (err, t)" by (cases x)
    show ?thesis
      by (simp add: Inl x Cons.IH Let_def)
  next
    case (Inr sm)
    obtain d w' where p: "parse_anime_details net (s_link sm) w = (d, w')"
      by (cases "parse_anime_details net (s_link sm) w")
    have d: "d = details_at net (requests w) (s_link sm)"
      using parse_anime_details_fst [of net "s_link sm" w] p by simp
    have r: "requests w' = Suc (requests w)"
      using parse_anime_details_requests [of net "s_link sm" w] p by simp
    show ?thesis
      by (simp add: Inr p Cons.IH d r)
  qed
qed

lemma length_emitted: "length (emitted net n sms) = length sms"
  by (induction sms arbitrary: n) simp_all

lemma length_parsed_rows:
  "length (parsed_rows flt es) = length (filter (is_parsed flt) es)"
  by (induction es) (simp_all add: is_parsed_def split: sum.splits)

lemma Rank_merge: "Rank (merge_record sm d) = s_rank sm"
  by (simp add: merge_record_def details.extend_def raw_record.fields_def)

lemma map_Rank_emitted: "map Rank (emitted net n sms) = map s_rank sms"
  by (induction sms arbitrary: n) (simp_all add: Rank_merge)

lemma parse_anime_details_log:
  "entry_errors (log (snd (parse_anime_details net url w))) = entry_errors (log w)"
  by (simp add: parse_anime_details_def fetch_page_def entry_errors_def
           split: response.splits sum.splits)

lemma parse_anime_details_fs:
  "dirs (snd (parse_anime_details net url w)) = dirs w \<and>
   files (snd (parse_anime_details net url w)) = files w"
  by (simp add: parse_anime_details_def fetch_page_def
           split: response.splits sum.splits)

lemma entry_errors_snoc:
  "entry_errors (lg @ [ErrorProcessingEntry t e]) = entry_errors lg @ [ErrorProcessingEntry t e]"
  by (simp add: entry_errors_def)

lemma parse_entries_log:
  "length (entry_errors (log (snd (parse_entries flt net es acc title w)))) =
     length (entry_errors (log w)) + length (filter (\<lambda>e. \<not> is_parsed flt e) es)"
proof (induction es arbitrary: acc title w)
  case Nil
  show ?case by simp
next
  case (Cons e es)
  show ?case
  proof (cases "extract_entry flt e")
    case (Inl x)
    obtain err t where x: "x = (err, t)" by (cases x)
    show ?thesis
      by (simp add: Inl x Cons.IH Let_def is_parsed_def entry_errors_snoc)
  next
    case (Inr sm)
    obtain d w' where p: "parse_anime_details net (s_link sm) w = (d, w')"
      by (cases "parse_anime_details net (s_link sm) w")
    have l: "entry_errors (log w') = entry_errors (log w)"
      using parse_anime_details_log [of net "s_link sm" w] p by simp
    show ?thesis
      by (simp add: Inr p Cons.IH l is_parsed_def)
  qed
qed

lemma parse_entries_requests:
  "requests (snd (parse_entries flt net es acc title w)) =
     requests w + length (parsed_rows flt es)"
proof (induction es arbitrary: acc title w)
  case Nil
  show ?case by simp
next
  case (Cons e es)
  show ?case
  proof (cases "extract_entry flt e")
    case (Inl x)
    obtain err t where x: "x = (err, t)" by (cases x)
    show ?thesis
      by (simp add: Inl x Cons.IH Let_def)
  next
    case (Inr sm)
    obtain d w' where p: "parse_anime_details net (s_link sm) w = (d, w')"
      by (cases "parse_anime_details net (s_link sm) w")
    have r: "requests w' = Suc (requests w)"
      using parse_anime_details_requests [of net "s_link sm" w] p by simp
    show ?thesis
      by (simp add: Inr p Cons.IH r)
  qed
qed

lemma parse_entries_fs:
  "dirs (snd (parse_entries flt net es acc title w)) = dirs w \<and>
   files (snd (parse_entries flt net es acc title w)) = files w"
proof (induction es arbitrary: acc title w)
  case Nil
  show ?case by simp
next
  case (Cons e es)
  show ?case
  proof (cases "extract_entry flt e")
    case (Inl x)
    obtain err t where x: "x = (err, t)" by (cases x)
    show ?thesis
      by (simp add: Inl x Cons.IH Let_def)
  next
    case (Inr sm)
    obtain d w' where p: "parse_anime_details net (s_link sm) w = (d, w')"
      by (cases "parse_anime_details net (s_link sm) w")
    have r: "dirs w' = dirs w \<and> files w' = files w"
      using parse_anime_details_fs [of net "s_link sm" w] p by simp
    show ?thesis
      by (simp add: Inr p Cons.IH r)
  qed
qed

lemma fetch_listings_fs:
  "dirs (snd (fetch_listings flt net offs acc w)) = dirs w \<and>
   files (snd (fetch_listings flt net offs acc w)) = files w"
proof (induction offs arbitrary: acc w)
  case Nil
  show ?case by simp
next
  case (Cons off offs)
  show ?case
  proof (cases "net (requests w) (BASE_URL @ ''?limit='' @ off)")
    case RequestException
    then show ?thesis by (simp add: fetch_page_def)
  next
    case (Page s)
    let ?w1 = "w\<lparr>log := log w @ [Info (''Fetching Top Anime page with offset='' @ off)],
                 requests := Suc (requests w)\<rparr>"
    obtain rows w2 where p: "parse_top_anime flt net s ?w1 = (rows, w2)"
      by (cases "parse_top_anime flt net s ?w1")
    have "dirs w2 = dirs ?w1 \<and> files w2 = files ?w1"
      using parse_entries_fs [of flt net "ranking_rows s" "[]" None ?w1] p
      by (simp add: parse_top_anime_def)
    then show ?thesis
      using Page p by (simp add: fetch_page_def Cons.IH)
  qed
qed

lemma fetch_listings_ranks:
  "fst (fetch_listings flt net offs acc w) = Inr out \<Longrightarrow>
   map Rank out = map Rank acc @ map s_rank (listed_rows flt net offs (requests w))"
proof (induction offs arbitrary: acc w)
  case Nil
  then show ?case by simp
next
  case (Cons off offs)
  show ?case
  proof (cases "net (requests w) (BASE_URL @ ''?limit='' @ off)")
    case RequestException
    then show ?thesis using Cons.prems by (simp add: fetch_page_def)
  next
    case (Page s)
    let ?w1 = "w\<lparr>log := log w @ [Info (''Fetching Top Anime page with offset='' @ off)],
                 requests := Suc (requests w)\<rparr>"
    obtain rows w2 where p: "parse_top_anime flt net s ?w1 = (rows, w2)"
      by (cases "parse_top_anime flt net s ?w1")
    have rows: "rows = emitted net (Suc (requests w)) (parsed_rows flt (ranking_rows s))"
      using parse_entries_fst [of flt net "ranking_rows s" "[]" None ?w1] p
      by (simp add: parse_top_anime_def)
    have req: "requests w2 = Suc (requests w) + length (parsed_rows flt (ranking_rows s))"
      using parse_entries_requests [of flt net "ranking_rows s" "[]" None ?w1] p
      by (simp add: parse_top_anime_def)
    have "fst (fetch_listings flt net offs (acc @ rows) w2) = Inr out"
      using Cons.prems Page p by (simp add: fetch_page_def)
    from Cons.IH [OF this] show ?thesis
      using Page by (simp add: rows req map_Rank_emitted)
  qed
qed

lemma emitted_nth:
  "i < length sms \<Longrightarrow>
   emitted net n sms ! i = merge_record (sms ! i) (details_at net (n + i) (s_link (sms ! i)))"
proof (induction sms arbitrary: n i)
  case Nil
  then show ?case by simp
next
  case (Cons sm sms)
  then show ?case by (cases i) simp_all
qed

lemma truncate_merge: "details.truncate (merge_record sm d) = d"
  by (simp add: merge_record_def details.truncate_def details.extend_def)

lemma parsed_rows_all:
  "\<forall>e \<in> set es. is_parsed flt e \<Longrightarrow> length (parsed_rows flt es) = length es"
  by (induction es) (auto simp: is_parsed_def split: sum.splits)

lemma isdigit_not_int_space: "isdigit c \<Longrightarrow> \<not> int_space c"
  by (auto simp: isdigit_def int_space_def Let_def)

lemma isdigit_not_sign:
  "isdigit c \<Longrightarrow> c \<noteq> CHR ''-'' \<and> c \<noteq> CHR ''+'' \<and> c \<noteq> CHR ''_''"
  by (auto simp: isdigit_def code_def Let_def)

lemma dropWhile_none: "list_all (\<lambda>c. \<not> P c) xs \<Longrightarrow> dropWhile P xs = xs"
  by (cases xs) simp_all

lemma int_digits_isdigit: "int_digits s \<Longrightarrow> list_all isdigit s \<Longrightarrow> list_all re_digit s"
  by (induction s rule: int_digits.induct) (auto dest: isdigit_not_sign)

lemma foldl_decimal_nonneg:
  "0 \<le> a \<Longrightarrow> list_all re_digit s \<Longrightarrow>
   0 \<le> foldl (\<lambda>a c. 10 * a + (int (code c) - 48)) a s"
  by (induction s arbitrary: a) (auto simp: re_digit_def Let_def)

lemma decimal_nonneg: "list_all re_digit s \<Longrightarrow> 0 \<le> decimal s"
  by (simp add: decimal_def foldl_decimal_nonneg)

lemma py_int_isdigit:
  assumes "ds \<noteq> []" and "list_all isdigit ds" and "py_int ds = Inr n"
  shows "n = decimal ds \<and> 0 \<le> n"
proof -
  have ns: "list_all (\<lambda>c. \<not> int_space c) ds"
    using assms(2) by (induction ds) (auto dest: isdigit_not_int_space)
  then have ns': "list_all (\<lambda>c. \<not> int_space c) (rev ds)"
    by (simp add: list_all_iff)
  have t: "rev (dropWhile int_space (rev (dropWhile int_space ds))) = ds"
    by (simp add: dropWhile_none [OF ns] dropWhile_none [OF ns'])
  obtain c cs where ds: "ds = c # cs"
    using assms(1) by (cases ds) auto
  have c: "c \<noteq> CHR ''-'' \<and> c \<noteq> CHR ''+''"
    using assms(2) isdigit_not_sign [of c] by (simp add: ds)
  have "int_digits ds \<and> n = decimal (filter re_digit ds)"
    using assms(3) c unfolding py_int_def t by (auto simp: ds Let_def split: if_splits)
  moreover from this have "list_all re_digit ds"
    using int_digits_isdigit assms(2) by blast
  moreover from this have "filter re_digit ds = ds"
    by (simp add: list_all_iff)
  ultimately show ?thesis
    using decimal_nonneg by simp
qed

lemma season_number_value:
  assumes "season_number s ty = Inr n"
  shows "n = (if startswith ty ''TV''
              then (case find (\<lambda>t. t \<noteq> [] \<and> contains t ''Season'') (text_nodes s) of
                      None \<Rightarrow> 1
                    | Some m \<Rightarrow> if filter isdigit m = [] then 1 else decimal (filter isdigit m))
              else 1) \<and> 0 \<le> n"
proof (cases "startswith ty ''TV''")
  case False
  then show ?thesis using assms by (simp add: season_number_def)
next
  case True
  show ?thesis
  proof (cases "find (\<lambda>t. t \<noteq> [] \<and> contains t ''Season'') (text_nodes s)")
    case None
    then show ?thesis using assms True by (simp add: season_number_def)
  next
    case (Some m)
    show ?thesis
    proof (cases "filter isdigit m = []")
      case True
      then show ?thesis using assms Some \<open>startswith ty ''TV''\<close>
        by (simp add: season_number_def)
    next
      case False
      have all: "list_all isdigit (filter isdigit m)"
        by (simp add: list_all_iff)
      have "py_int (filter isdigit m) = Inr n"
        using assms Some False all \<open>startswith ty ''TV''\<close>
        by (simp add: season_number_def Let_def)
      from py_int_isdigit [OF False all this] show ?thesis
        using Some False \<open>startswith ty ''TV''\<close> by simp
    qed
  qed
qed

lemma extract_details_season:
  "extract_details s = Inr d \<Longrightarrow> season_number s (Type d) = Inr (Season_Number d)"
  by (auto simp: extract_details_def and_then_def split: sum.splits)

text \<open>
  C1: when the fetch of a detail page raises, or the extraction of its fields raises,
  \<open>parse_anime_details\<close> returns the all-default detail record; and a listing page whose
  rows all parse yields one record per row whatever the network does, the record of a row
  whose detail fetch raised carrying the default detail fields.
\<close>

theorem detail_failure_gives_defaults:
  "(net (requests w) url = RequestException \<longrightarrow>
      fst (parse_anime_details net url w) = default_details) \<and>
   (net (requests w) url = Page s \<and> extract_details s = Inl err \<longrightarrow>
      fst (parse_anime_details net url w) = default_details) \<and>
   ((\<forall>e \<in> set (ranking_rows pg). is_parsed flt e) \<longrightarrow>
      length (fst (parse_top_anime flt net pg w)) = length (ranking_rows pg) \<and>
      (\<forall>i < length (ranking_rows pg).
         net (requests w + i) (s_link (parsed_rows flt (ranking_rows pg) ! i)) = RequestException \<longrightarrow>
         details.truncate (fst (parse_top_anime flt net pg w) ! i) = default_details))"
proof (intro conjI impI allI)
  assume "net (requests w) url = RequestException"
  then show "fst (parse_anime_details net url w) = default_details"
    by (simp add: parse_anime_details_fst details_at_def)
next
  assume "net (requests w) url = Page s \<and> extract_details s = Inl err"
  then show "fst (parse_anime_details net url w) = default_details"
    by (simp add: parse_anime_details_fst details_at_def)
next
  assume "\<forall>e \<in> set (ranking_rows pg). is_parsed flt e"
  then show "length (fst (parse_top_anime flt net pg w)) = length (ranking_rows pg)"
    by (simp add: parse_top_anime_def parse_entries_fst length_emitted parsed_rows_all)
next
  fix i
  assume all: "\<forall>e \<in> set (ranking_rows pg). is_parsed flt e"
    and i: "i < length (ranking_rows pg)"
    and f: "net (requests w + i) (s_link (parsed_rows flt (ranking_rows pg) ! i)) = RequestException"
  have "i < length (parsed_rows flt (ranking_rows pg))"
    using all i by (simp add: parsed_rows_all)
  then show "details.truncate (fst (parse_top_anime flt net pg w) ! i) = default_details"
    using f by (simp add: parse_top_anime_def parse_entries_fst emitted_nth truncate_merge
                  details_at_def)
qed

theorem detail_failure_gives_defaults_witness:
  "fst (parse_anime_details net1 ''/anime/2'' w0) = default_details \<and>
   fst (parse_anime_details net1 ''/anime/9'' w0) = default_details \<and>
   length (fst (parse_top_anime flt0 net1 page0 w0)) = 3 \<and>
   details.truncate (fst (parse_top_anime flt0 net1 page0 w0) ! 1) = default_details"
proof -
  have h1: "net1 (requests w0) ''/anime/2'' = RequestException"
    by code_simp
  have h2: "net1 (requests w0) ''/anime/9'' = Page detail_bad \<and> extract_details detail_bad = Inl TypeError"
    by code_simp
  have h3: "\<forall>e \<in> set (ranking_rows page0). is_parsed flt0 e"
    by code_simp
  have h4: "(1::nat) < length (ranking_rows page0)" and h5: "length (ranking_rows page0) = 3"
    by code_simp+
  have h6: "net1 (requests w0 + 1) (s_link (parsed_rows flt0 (ranking_rows page0) ! 1)) = RequestException"
    by code_simp
  show ?thesis
    using detail_failure_gives_defaults [of net1 w0 "''/anime/2''" detail_bad TypeError page0 flt0]
      detail_failure_gives_defaults [of net1 w0 "''/anime/9''" detail_bad TypeError page0 flt0]
      h1 h2 h3 h4 h5 h6
    by simp
qed

text \<open>
  C2: \<open>parse_top_anime\<close> emits exactly one record for each row whose extraction does not
  raise, and logs one entry error for each row whose extraction raises; it always returns.
\<close>

theorem entry_failures_are_skipped:
  "length (fst (parse_top_anime flt net pg w)) =
     length (filter (is_parsed flt) (ranking_rows pg)) \<and>
   length (entry_errors (log (snd (parse_top_anime flt net pg w)))) =
     length (entry_errors (log w)) + length (filter (\<lambda>e. \<not> is_parsed flt e) (ranking_rows pg))"
  by (simp add: parse_top_anime_def parse_entries_fst parse_entries_log length_emitted
        length_parsed_rows)

text \<open>
  C5, as amended: the season number is never negative; it is 1 when the type does not start
  with \<open>TV\<close>; and for a page whose extraction does not raise and whose type starts with
  \<open>TV\<close> it is 1 when no text fragment contains \<open>Season\<close> or the first such fragment has
  no digit, and otherwise the number written by all the digits of that fragment, in order.
\<close>

theorem season_number_all_digits:
  "0 \<le> Season_Number (fst (parse_anime_details net url w)) \<and>
   (\<not> startswith (Type (fst (parse_anime_details net url w))) ''TV'' \<longrightarrow>
      Season_Number (fst (parse_anime_details net url w)) = 1) \<and>
   (net (requests w) url = Page s \<and> extract_details s = Inr d \<and> startswith (Type d) ''TV'' \<longrightarrow>
      Season_Number (fst (parse_anime_details net url w)) =
        (case find (\<lambda>t. t \<noteq> [] \<and> contains t ''Season'') (text_nodes s) of
           None \<Rightarrow> 1
         | Some m \<Rightarrow> if filter isdigit m = [] then 1 else decimal (filter isdigit m)))"
proof -
  have dflt: "Season_Number default_details = 1 \<and> \<not> startswith (Type default_details) ''TV''"
    by (simp add: default_details_def startswith_def)
  show ?thesis
  proof (cases "net (requests w) url")
    case RequestException
    then show ?thesis
      using dflt by (simp add: parse_anime_details_fst details_at_def)
  next
    case (Page s')
    show ?thesis
    proof (cases "extract_details s'")
      case (Inl e)
      then show ?thesis
        using Page dflt by (auto simp: parse_anime_details_fst details_at_def)
    next
      case (Inr d')
      have r: "fst (parse_anime_details net url w) = d'"
        using Page Inr by (simp add: parse_anime_details_fst details_at_def)
      from season_number_value [OF extract_details_season [OF Inr]]
      show ?thesis
        using Page Inr unfolding r by (auto split: if_splits)
    qed
  qed
qed

theorem season_number_all_digits_witness:
  "Season_Number (fst (parse_anime_details net0 ''/anime/1'' w0)) = 23 \<and>
   Season_Number (fst (parse_anime_details net0 ''/anime/2'' w0)) = 1"
proof -
  let ?s = "detail0 '' TV '' ''Season 2 Part 3''"
  let ?d = "projr (extract_details ?s)"
  have d: "extract_details ?s = Inr ?d \<and> startswith (Type ?d) ''TV''"
    by code_simp
  have h1: "net0 (requests w0) ''/anime/1'' = Page ?s"
    by code_simp
  have h2: "(case find (\<lambda>t. t \<noteq> [] \<and> contains t ''Season'') (text_nodes ?s) of
               None \<Rightarrow> 1
             | Some m \<Rightarrow> if filter isdigit m = [] then 1 else decimal (filter isdigit m)) = 23"
    by code_simp
  have h3: "\<not> startswith (Type (fst (parse_anime_details net0 ''/anime/2'' w0))) ''TV''"
    by code_simp
  show ?thesis
    using season_number_all_digits [of net0 "''/anime/1''" w0 ?s ?d]
      season_number_all_digits [of net0 "''/anime/2''" w0 ?s ?d] d h1 h2 h3
    by simp
qed

text \<open>
  C5 as stated fails: for the fragment \<open>Season 2 Part 3\<close> the season number is 23 while
  the leading digit run is 2, and for the fragment \<open>Season 0\<close> it is 0, which is not
  positive.
\<close>

theorem season_number_counterexample:
  "Season_Number (fst (parse_anime_details net0 ''/anime/1'' w0)) = 23 \<and>
   py_int (leading_digit_run ''Season 2 Part 3'') = Inr 2 \<and>
   \<not> 0 < Season_Number (fst (parse_anime_details net0 ''/anime/3'' w0))"
  by code_simp

text \<open>
  C6: a row with a rank, a title and a link but no score cell. The score falls back to 0.0,
  then \<open>score_td.get_text\<close> raises on the absent cell and the row is skipped.
\<close>

theorem missing_score_cell_drops_entry:
  "extract_entry flt0 row_no_score = Inl (AttributeError, Some ''Frieren'') \<and>
   fst (parse_top_anime flt0 net0 (listing0 [row_no_score]) w0) = [] \<and>
   log (snd (parse_top_anime flt0 net0 (listing0 [row_no_score]) w0)) =
     [ErrorProcessingEntry ''Frieren'' AttributeError]"
  by code_simp

text \<open>
  C7, as amended: the records of a page hold, in order, the ranks read from the rows that
  parsed, and the records of a crawl hold the ranks of the parsed rows of its pages in the
  order the pages were fetched.
\<close>

theorem ranks_follow_listing_order:
  "map Rank (fst (parse_top_anime flt net pg w)) = map s_rank (parsed_rows flt (ranking_rows pg)) \<and>
   (fst (fetch_listings flt net offsets [] w) = Inr out \<longrightarrow>
      map Rank out = map s_rank (listed_rows flt net offsets (requests w)))"
  using fetch_listings_ranks [of flt net offsets "[]" w out]
  by (simp add: parse_top_anime_def parse_entries_fst map_Rank_emitted)

theorem ranks_follow_listing_order_witness:
  "map Rank (fst (parse_top_anime flt0 net1 page0 w0)) = [1, 2, 3] \<and>
   (\<exists>out. fst (fetch_listings flt0 net1 [''0'', ''50'', ''100''] [] w0) = Inr out \<and>
      map Rank out = [1, 2, 3, 1, 1])"
proof -
  let ?out = "projr (fst (fetch_listings flt0 net1 [''0'', ''50'', ''100''] [] w0))"
  have out: "fst (fetch_listings flt0 net1 [''0'', ''50'', ''100''] [] w0) = Inr ?out"
    by code_simp
  have h1: "map s_rank (parsed_rows flt0 (ranking_rows page0)) = [1, 2, 3]"
    by code_simp
  have h2: "map s_rank (listed_rows flt0 net1 [''0'', ''50'', ''100''] (requests w0)) = [1, 2, 3, 1, 1]"
    by code_simp
  show ?thesis
    using ranks_follow_listing_order [of flt0 net1 page0 w0 "[''0'', ''50'', ''100'']" ?out] out h1 h2
    by auto
qed

text \<open>
  C7 as stated fails: two rows that carry the same rank give two records of that rank; and
  when the first row of a page is skipped, the first record holds the rank of the second
  listing position.
\<close>

theorem ranks_unique_counterexample:
  "\<not> distinct (map Rank (fst (parse_top_anime flt0 net0 page_dup w0))) \<and>
   map rank_td (ranking_rows page_skip) = [Some ''1'', Some ''2''] \<and>
   map Rank (fst (parse_top_anime flt0 net0 page_skip w0)) = [2]"
  by code_simp

text \<open>
  C8: \<open>save_data\<close> on no records raises and leaves the world as it was; a run that
  collects no record ends with that error, its directories and files unchanged.
\<close>

theorem no_records_no_file:
  "save_data [] filepath w = (Inl (AnimeScraperError ''No data to save''), w) \<and>
   (fst (fetch_listings flt net [''0'', ''50'', ''100''] [] w) = Inr [] \<longrightarrow>
      fst (main flt net script_dir w) = Inl (AnimeScraperError ''No data to save'') \<and>
      dirs (snd (main flt net script_dir w)) = dirs w \<and>
      files (snd (main flt net script_dir w)) = files w)"
proof (intro conjI impI)
  show sd: "save_data [] filepath w = (Inl (AnimeScraperError ''No data to save''), w)"
    for filepath w
    by (simp add: save_data_def)
  assume a: "fst (fetch_listings flt net [''0'', ''50'', ''100''] [] w) = Inr []"
  obtain r w' where f: "fetch_listings flt net [''0'', ''50'', ''100''] [] w = (r, w')"
    by (cases "fetch_listings flt net [''0'', ''50'', ''100''] [] w")
  have r: "r = Inr []" using a f by simp
  have fs: "dirs w' = dirs w \<and> files w' = files w"
    using fetch_listings_fs [of flt net "[''0'', ''50'', ''100'']" "[]" w] f by simp
  show "fst (main flt net script_dir w) = Inl (AnimeScraperError ''No data to save'')"
    by (simp add: main_def f r sd del: fetch_listings.simps)
  show "dirs (snd (main flt net script_dir w)) = dirs w"
    by (simp add: main_def f r sd fs del: fetch_listings.simps)
  show "files (snd (main flt net script_dir w)) = files w"
    by (simp add: main_def f r sd fs del: fetch_listings.simps)
qed

theorem no_records_no_file_witness:
  "fst (main flt0 empty_net [''repo'', ''src''] w0) = Inl (AnimeScraperError ''No data to save'') \<and>
   dirs (snd (main flt0 empty_net [''repo'', ''src''] w0)) = dirs w0 \<and>
   files (snd (main flt0 empty_net [''repo'', ''src''] w0)) = files w0"
proof -
  have h: "fst (fetch_listings flt0 empty_net [''0'', ''50'', ''100''] [] w0) = Inr []"
    by code_simp
  show ?thesis
    using no_records_no_file [of "[]" w0 flt0 empty_net "[''repo'', ''src'']"] h by simp
qed

section \<open>Properties of the normalizer\<close>

lemma getitem_present: "name \<in> fst ` set df \<Longrightarrow> getitem df name = Inr (the (map_of df name))"
  by (auto simp: getitem_def map_of_eq_None_iff split: option.splits)

lemma getitem_absent: "name \<notin> fst ` set df \<Longrightarrow> getitem df name = Inl (KeyError name)"
  by (simp add: getitem_def map_of_eq_None_iff [THEN iffD2])

lemma names_setitem: "fst ` set (setitem df name col) = insert name (fst ` set df)"
  by (induction df name col rule: setitem.induct) auto


lemma status_column_present:
  "name \<in> fst ` set df \<Longrightarrow>
   status_column num df name =
     Inr (map fillna0 (to_numeric num (the (map_of df name))),
          setitem df name (map Num (map fillna0 (to_numeric num (the (map_of df name))))))"
  by (simp add: status_column_def getitem_present and_then_def Let_def)

lemma status_column_absent:
  "name \<notin> fst ` set df \<Longrightarrow> status_column num df name = Inl (KeyError name)"
  by (simp add: status_column_def getitem_absent and_then_def)

lemma and_then_Inr: "and_then (Inr x) f = f x"
  by (simp add: and_then_def)

lemma and_then_Inl: "and_then (Inl e) f = Inl e"
  by (simp add: and_then_def)































section \<open>Properties of the reporter\<close>









end
